theory Spec2Isabelle
  imports Main
begin

section \<open>Construction errors\<close>

text \<open>
  A constructor of the infrastructure library that rejects its arguments throws; the
  exception leaves the stack's constructor at once. An error names the offending
  construct and the violated rule.
\<close>

datatype error =
    ValidationError string string
  | ReferenceError string

section \<open>Networking: \<^verbatim>\<open>ec2.Vpc\<close>\<close>

datatype SubnetType = PRIVATE_ISOLATED | PRIVATE_WITH_EGRESS | PUBLIC

record SubnetConfiguration =
  name :: string
  subnetType :: SubnetType
  cidrMask :: nat

record VpcProps =
  maxAzs :: int
  natGateways :: int
  subnetConfiguration :: "SubnetConfiguration list"

text \<open>
  A subnet of the network: the group it was configured by, its kind, the index of its
  availability zone, and its address block, given by the offset of the block's first
  address inside the network's range and by the prefix length.
\<close>

record Subnet =
  subnetGroupName :: string
  subnetKind :: SubnetType
  availabilityZone :: nat
  cidrBase :: nat
  cidrPrefix :: nat

record Vpc =
  vpcProps :: VpcProps
  subnets :: "Subnet list"
  natGatewayCount :: nat

definition blockSize :: "nat \<Rightarrow> nat" where
  "blockSize len = 2 ^ (32 - len)"

definition blockEnd :: "Subnet \<Rightarrow> nat" where
  "blockEnd s = cidrBase s + blockSize (cidrPrefix s)"

definition overlapping :: "Subnet \<Rightarrow> Subnet \<Rightarrow> bool" where
  "overlapping a b \<longleftrightarrow> cidrBase a < blockEnd b \<and> cidrBase b < blockEnd a"

fun nonOverlapping :: "Subnet list \<Rightarrow> bool" where
  "nonOverlapping [] = True"
| "nonOverlapping (s # ss) = (list_all (\<lambda>t. \<not> overlapping s t) ss \<and> nonOverlapping ss)"

definition alignUp :: "nat \<Rightarrow> nat \<Rightarrow> nat" where
  "alignUp addr sz = ((addr + sz - 1) div sz) * sz"

text \<open>
  Modelled from the spec: the constructor of \<^verbatim>\<open>ec2.Vpc\<close> belongs to the library
  \<^verbatim>\<open>aws-cdk-lib\<close>, which is not among the sources; the stack only calls it. Following
  section 4.1, the network gets one subnet per configured group and availability zone,
  the blocks are handed out one after the other from the start of the network's range,
  each of the size its prefix length gives and aligned to that size, and a request for
  fewer than one availability zone is refused.
\<close>

fun allocate :: "nat \<Rightarrow> (SubnetConfiguration \<times> nat) list \<Rightarrow> Subnet list" where
  "allocate next [] = []"
| "allocate next ((c, az) # rest) =
     (let base = alignUp next (blockSize (cidrMask c)) in
      \<lparr> subnetGroupName = name c, subnetKind = subnetType c, availabilityZone = az,
        cidrBase = base, cidrPrefix = cidrMask c \<rparr>
      # allocate (base + blockSize (cidrMask c)) rest)"

definition BuildNetwork :: "VpcProps \<Rightarrow> error + Vpc" where
  "BuildNetwork p =
     (if maxAzs p < 1
      then Inl (ValidationError ''Vpc'' ''availabilityZoneCount < 1'')
      else Inr \<lparr> vpcProps = p,
                 subnets = allocate 0 (List.product (subnetConfiguration p) [0 ..< nat (maxAzs p)]),
                 natGatewayCount = nat (natGateways p) \<rparr>)"

definition isPublic :: "Subnet \<Rightarrow> bool" where
  "isPublic s \<longleftrightarrow> subnetKind s = PUBLIC"

definition isPrivate :: "Subnet \<Rightarrow> bool" where
  "isPrivate s \<longleftrightarrow> subnetKind s = PRIVATE_WITH_EGRESS \<or> subnetKind s = PRIVATE_ISOLATED"


definition selectSubnets :: "Vpc \<Rightarrow> SubnetType \<Rightarrow> Subnet list" where
  "selectSubnets v t = filter (\<lambda>s. subnetKind s = t) (subnets v)"

section \<open>Values the library supplies\<close>

text \<open>
  The stack reads a few string attributes from constructs it has created: the endpoint
  of the database, the ARN of the load balancer, of the web ACL and of the topic. What
  these strings are is decided by the library, so they are parameters of the model.
\<close>

record Attributes =
  dbInstanceEndpointAddress :: string
  dbInstanceEndpointPort :: string
  loadBalancerArn :: string
  attrArn :: string
  topicArn :: string

section \<open>Secrets and the database\<close>

record GenerateSecretString =
  secretStringTemplate :: string
  generateStringKey :: string
  excludePunctuation :: bool

record Secret =
  generateSecretString :: GenerateSecretString

text \<open>Constructs refer to each other by construct id.\<close>

datatype Credentials = fromSecret string

datatype PostgresEngineVersion = VER_15_12
datatype DatabaseInstanceEngine = postgres PostgresEngineVersion
datatype InstanceClass = T3
datatype InstanceSize = MICRO
datatype InstanceType = InstanceType_of InstanceClass InstanceSize
datatype RemovalPolicy = DESTROY | RETAIN | SNAPSHOT
datatype Duration = days nat | minutes nat

datatype Port = tcp nat

text \<open>
  The other side of a security rule: an address range, or the network interface of a
  service, named by the service's construct id.
\<close>

datatype Peer = anyIpv4 | ipv4 string | ofService string

record IngressRule =
  rulePeer :: Peer
  rulePort :: Port
  ruleDescription :: string

record DatabaseInstanceProps =
  engine :: DatabaseInstanceEngine
  instanceType :: InstanceType
  dbVpc :: string
  dbVpcSubnets :: SubnetType
  credentials :: Credentials
  allocatedStorage :: nat
  maxAllocatedStorage :: nat
  databaseName :: string
  multiAz :: bool
  publiclyAccessible :: bool
  dbRemovalPolicy :: RemovalPolicy
  deleteAutomatedBackups :: bool
  backupRetention :: Duration

record DatabaseInstance =
  dbProps :: DatabaseInstanceProps
  connections :: "IngressRule list"

section \<open>Cluster, log groups and workloads\<close>

record Cluster =
  clusterVpc :: string

datatype RetentionDays = ONE_DAY | ONE_WEEK | ONE_MONTH

record LogGroup =
  logGroupName :: string
  retention :: RetentionDays
  lgRemovalPolicy :: RemovalPolicy

datatype ContainerImage = fromRegistry string

datatype EcsSecret = fromSecretsManager string string

record AwsLogDriverProps =
  streamPrefix :: string
  logGroup :: string

datatype LogDriver = awsLogs AwsLogDriverProps

record TaskImageOptions =
  image :: ContainerImage
  containerPort :: nat
  environment :: "(string \<times> string) list"
  secrets :: "(string \<times> EcsSecret) list"
  logDriver :: LogDriver

record ApplicationLoadBalancedFargateServiceProps =
  cluster :: string
  desiredCount :: nat
  cpu :: nat
  memoryLimitMiB :: nat
  publicLoadBalancer :: bool
  taskImageOptions :: TaskImageOptions

datatype ManagedPolicy = fromAwsManagedPolicyName string

record Role =
  managedPolicies :: "ManagedPolicy list"

record ContainerDefinitionOptions =
  containerImage :: ContainerImage
  logging :: LogDriver

record FargateTaskDefinition =
  tdCpu :: nat
  tdMemoryLimitMiB :: nat
  containers :: "(string \<times> ContainerDefinitionOptions) list"
  executionRole :: "Role option"

record ApplicationLoadBalancer =
  albArn :: string
  internetFacing :: bool

text \<open>
  The load-balanced service is one construct that holds the service's settings, its
  task definition and its load balancer: \<^verbatim>\<open>backendService.service\<close>,
  \<^verbatim>\<open>backendService.taskDefinition\<close> and \<^verbatim>\<open>backendService.loadBalancer\<close>.
\<close>

record ApplicationLoadBalancedFargateService =
  albProps :: ApplicationLoadBalancedFargateServiceProps
  taskDefinition :: FargateTaskDefinition
  loadBalancer :: ApplicationLoadBalancer

record FargateServiceProps =
  fsCluster :: string
  fsTaskDefinition :: string
  fsDesiredCount :: nat
  assignPublicIp :: bool
  fsVpcSubnets :: SubnetType
  securityGroups :: "string list"

record SecurityGroup =
  sgVpc :: string
  sgDescription :: string
  allowAllOutbound :: bool
  ingressRules :: "IngressRule list"

section \<open>Web ACL\<close>

datatype WafAction = WafAllow | WafBlock
datatype OverrideAction = OverrideNone | OverrideCount

record VisibilityConfig =
  cloudWatchMetricsEnabled :: bool
  metricName :: string
  sampledRequestsEnabled :: bool

record ManagedRuleGroupStatement =
  vendorName :: string
  groupName :: string

record WafRule =
  ruleName :: string
  priority :: nat
  overrideAction :: OverrideAction
  managedRuleGroupStatement :: ManagedRuleGroupStatement
  ruleVisibilityConfig :: VisibilityConfig

record CfnWebACL =
  defaultAction :: WafAction
  aclScope :: string
  visibilityConfig :: VisibilityConfig
  rules :: "WafRule list"
  webAclAttrArn :: string

record CfnWebACLAssociation =
  resourceArn :: string
  webAclArn :: string

section \<open>Monitoring\<close>

datatype Subscription = EmailSubscription string

record Topic =
  displayName :: string
  subscriptions :: "Subscription list"
  topicAttrArn :: string

text \<open>A metric names the construct it is read from and its period.\<close>

datatype Metric = metricCpuUtilization string Duration | metricCPUUtilization string Duration

datatype ComparisonOperator =
    GREATER_THAN_OR_EQUAL_TO_THRESHOLD
  | GREATER_THAN_THRESHOLD
  | LESS_THAN_THRESHOLD
  | LESS_THAN_OR_EQUAL_TO_THRESHOLD

record AlarmProps =
  metric :: Metric
  threshold :: int
  evaluationPeriods :: int
  datapointsToAlarm :: int
  alarmDescription :: string
  comparisonOperator :: ComparisonOperator
  alarmName :: string

record Alarm =
  alarmProps :: AlarmProps
  alarmActions :: "string list"

section \<open>The construct tree of the stack\<close>

datatype Construct =
    VpcNode Vpc
  | SecretNode Secret
  | DatabaseNode DatabaseInstance
  | ClusterNode Cluster
  | LogGroupNode LogGroup
  | LoadBalancedServiceNode ApplicationLoadBalancedFargateService
  | WebACLNode CfnWebACL
  | WebACLAssociationNode CfnWebACLAssociation
  | SecurityGroupNode SecurityGroup
  | TaskDefinitionNode FargateTaskDefinition
  | FargateServiceNode FargateServiceProps
  | TopicNode Topic
  | AlarmNode Alarm

record Environment =
  account :: "string option"
  region :: "string option"

record StackProps =
  env :: Environment

text \<open>
  The stack under construction: its properties and its children, in the order in which
  they were created, each under its construct id.
\<close>

record Stack =
  stackProps :: "StackProps option"
  nodes :: "(string \<times> Construct) list"

definition new_Stack :: "StackProps option \<Rightarrow> Stack" where
  "new_Stack props = \<lparr> stackProps = props, nodes = [] \<rparr>"

definition addChild :: "string \<Rightarrow> Construct \<Rightarrow> Stack \<Rightarrow> Stack" where
  "addChild cid n this = this\<lparr> nodes := nodes this @ [(cid, n)] \<rparr>"

text \<open>
  A method call on a construct created earlier changes that construct in place. The
  handle is the construct id; a handle that names no construct of the expected kind is
  a reference error.
\<close>

definition updateChild :: "string \<Rightarrow> (Construct \<Rightarrow> Construct option) \<Rightarrow> Stack \<Rightarrow> error + Stack" where
  "updateChild cid f this =
     (case map_of (nodes this) cid of
        None \<Rightarrow> Inl (ReferenceError cid)
      | Some n \<Rightarrow>
          (case f n of
             None \<Rightarrow> Inl (ReferenceError cid)
           | Some n' \<Rightarrow>
               Inr (this\<lparr> nodes := map (\<lambda>(i, m). if i = cid then (i, n') else (i, m)) (nodes this) \<rparr>)))"


section \<open>Reading the construct tree\<close>

fun asVpc :: "Construct \<Rightarrow> Vpc option" where
  "asVpc (VpcNode v) = Some v"
| "asVpc _ = None"

fun asSecret :: "Construct \<Rightarrow> Secret option" where
  "asSecret (SecretNode x) = Some x"
| "asSecret _ = None"

fun asDatabase :: "Construct \<Rightarrow> DatabaseInstance option" where
  "asDatabase (DatabaseNode d) = Some d"
| "asDatabase _ = None"

fun asCluster :: "Construct \<Rightarrow> Cluster option" where
  "asCluster (ClusterNode c) = Some c"
| "asCluster _ = None"

fun asLoadBalancedService :: "Construct \<Rightarrow> ApplicationLoadBalancedFargateService option" where
  "asLoadBalancedService (LoadBalancedServiceNode s) = Some s"
| "asLoadBalancedService _ = None"

fun asWebACLAssociation :: "Construct \<Rightarrow> CfnWebACLAssociation option" where
  "asWebACLAssociation (WebACLAssociationNode x) = Some x"
| "asWebACLAssociation _ = None"

fun asSecurityGroup :: "Construct \<Rightarrow> SecurityGroup option" where
  "asSecurityGroup (SecurityGroupNode g) = Some g"
| "asSecurityGroup _ = None"

fun asTaskDefinition :: "Construct \<Rightarrow> FargateTaskDefinition option" where
  "asTaskDefinition (TaskDefinitionNode td) = Some td"
| "asTaskDefinition _ = None"

fun asFargateService :: "Construct \<Rightarrow> FargateServiceProps option" where
  "asFargateService (FargateServiceNode f) = Some f"
| "asFargateService _ = None"

fun asAlarm :: "Construct \<Rightarrow> Alarm option" where
  "asAlarm (AlarmNode al) = Some al"
| "asAlarm _ = None"

text \<open>The children of one kind, with their construct ids, in creation order.\<close>

definition childrenOf :: "(Construct \<Rightarrow> 'a option) \<Rightarrow> Stack \<Rightarrow> (string \<times> 'a) list" where
  "childrenOf sel this =
     List.map_filter (\<lambda>(i, n). map_option (Pair i) (sel n)) (nodes this)"

text \<open>
  The subnets a construct is placed in: those of the network it names that have the
  selected type.
\<close>

definition placement :: "Stack \<Rightarrow> string \<Rightarrow> SubnetType \<Rightarrow> Subnet list" where
  "placement this v t =
     (case map_of (childrenOf asVpc this) v of
        None \<Rightarrow> []
      | Some n \<Rightarrow> selectSubnets n t)"

section \<open>Constructors and methods of the constructs\<close>

definition new_Vpc :: "string \<Rightarrow> VpcProps \<Rightarrow> Stack \<Rightarrow> error + Stack" where
  "new_Vpc cid p this =
     (case BuildNetwork p of
        Inl e \<Rightarrow> Inl e
      | Inr v \<Rightarrow> Inr (addChild cid (VpcNode v) this))"

definition quote :: char where
  "quote = CHR 0x22"

fun JSON_members :: "(string \<times> string) list \<Rightarrow> string" where
  "JSON_members [] = []"
| "JSON_members [(k, v)] = quote # k @ quote # '':'' @ quote # v @ [quote]"
| "JSON_members ((k, v) # kvs) = quote # k @ quote # '':'' @ quote # v @ quote # '','' @ JSON_members kvs"

text \<open>\<^verbatim>\<open>JSON.stringify\<close> of an object of strings without characters to escape.\<close>

definition JSON_stringify :: "(string \<times> string) list \<Rightarrow> string" where
  "JSON_stringify kvs = ''{'' @ JSON_members kvs @ ''}''"

definition new_Secret :: "string \<Rightarrow> GenerateSecretString \<Rightarrow> Stack \<Rightarrow> error + Stack" where
  "new_Secret cid p this = Inr (addChild cid (SecretNode \<lparr> generateSecretString = p \<rparr>) this)"

definition new_DatabaseInstance :: "string \<Rightarrow> DatabaseInstanceProps \<Rightarrow> Stack \<Rightarrow> error + Stack" where
  "new_DatabaseInstance cid p this =
     Inr (addChild cid (DatabaseNode \<lparr> dbProps = p, connections = [] \<rparr>) this)"

definition new_Cluster :: "string \<Rightarrow> Cluster \<Rightarrow> Stack \<Rightarrow> error + Stack" where
  "new_Cluster cid p this = Inr (addChild cid (ClusterNode p) this)"

definition new_LogGroup :: "string \<Rightarrow> LogGroup \<Rightarrow> Stack \<Rightarrow> error + Stack" where
  "new_LogGroup cid p this = Inr (addChild cid (LogGroupNode p) this)"

text \<open>
  The load-balanced service creates, in the one constructor call, the task definition
  with the container described by \<^verbatim>\<open>taskImageOptions\<close> (the library names it
  \<^verbatim>\<open>web\<close>) and the load balancer in front of the service.
\<close>

definition new_ApplicationLoadBalancedFargateService ::
    "Attributes \<Rightarrow> string \<Rightarrow> ApplicationLoadBalancedFargateServiceProps \<Rightarrow> Stack \<Rightarrow> error + Stack" where
  "new_ApplicationLoadBalancedFargateService a cid p this =
     Inr (addChild cid
       (LoadBalancedServiceNode
          \<lparr> albProps = p,
            taskDefinition =
              \<lparr> tdCpu = cpu p, tdMemoryLimitMiB = memoryLimitMiB p,
                containers = [(''web'', \<lparr> containerImage = image (taskImageOptions p),
                                         logging = logDriver (taskImageOptions p) \<rparr>)],
                executionRole = None \<rparr>,
            loadBalancer = \<lparr> albArn = loadBalancerArn a, internetFacing = publicLoadBalancer p \<rparr> \<rparr>)
       this)"

text \<open>
  \<^verbatim>\<open>obtainExecutionRole\<close> returns the execution role of the task definition and creates
  it first when there is none.
\<close>

definition obtainExecutionRole :: "FargateTaskDefinition \<Rightarrow> FargateTaskDefinition" where
  "obtainExecutionRole td =
     (case executionRole td of
        None \<Rightarrow> td\<lparr> executionRole := Some \<lparr> managedPolicies = [] \<rparr> \<rparr>
      | Some r \<Rightarrow> td)"

text \<open>
  Modelled from the spec: \<^verbatim>\<open>addManagedPolicy\<close> belongs to the library and is not among
  the sources. Sections 4.4 and 9 describe the grant as looked up before it is added,
  so that a policy the role already has is not added again.
\<close>

definition addManagedPolicy :: "ManagedPolicy \<Rightarrow> Role \<Rightarrow> Role" where
  "addManagedPolicy p r =
     (if p \<in> set (managedPolicies r) then r
      else r\<lparr> managedPolicies := managedPolicies r @ [p] \<rparr>)"

definition obtainExecutionRole_addManagedPolicy ::
    "ManagedPolicy \<Rightarrow> FargateTaskDefinition \<Rightarrow> FargateTaskDefinition" where
  "obtainExecutionRole_addManagedPolicy p td =
     (let td' = obtainExecutionRole td
      in td'\<lparr> executionRole := map_option (addManagedPolicy p) (executionRole td') \<rparr>)"

fun grantNode :: "ManagedPolicy \<Rightarrow> Construct \<Rightarrow> Construct option" where
  "grantNode p (LoadBalancedServiceNode s) =
     Some (LoadBalancedServiceNode
             (s\<lparr> taskDefinition := obtainExecutionRole_addManagedPolicy p (taskDefinition s) \<rparr>))"
| "grantNode p (TaskDefinitionNode td) =
     Some (TaskDefinitionNode (obtainExecutionRole_addManagedPolicy p td))"
| "grantNode p _ = None"

text \<open>
  The statement
  \<^verbatim>\<open>w.obtainExecutionRole().addManagedPolicy(fromAwsManagedPolicyName('AmazonEC2ContainerRegistryReadOnly'))\<close>,
  for the task definition of the workload \<open>w\<close>.
\<close>

definition GrantImagePull :: "string \<Rightarrow> Stack \<Rightarrow> error + Stack" where
  "GrantImagePull w this =
     updateChild w (grantNode (fromAwsManagedPolicyName ''AmazonEC2ContainerRegistryReadOnly'')) this"

fun allowFromNode :: "IngressRule \<Rightarrow> Construct \<Rightarrow> Construct option" where
  "allowFromNode r (DatabaseNode d) = Some (DatabaseNode (d\<lparr> connections := connections d @ [r] \<rparr>))"
| "allowFromNode r _ = None"

definition connections_allowFrom :: "string \<Rightarrow> Peer \<Rightarrow> Port \<Rightarrow> string \<Rightarrow> Stack \<Rightarrow> error + Stack" where
  "connections_allowFrom target other p descr this =
     updateChild target
       (allowFromNode \<lparr> rulePeer = other, rulePort = p, ruleDescription = descr \<rparr>) this"

definition new_CfnWebACL :: "string \<Rightarrow> CfnWebACL \<Rightarrow> Stack \<Rightarrow> error + Stack" where
  "new_CfnWebACL cid p this = Inr (addChild cid (WebACLNode p) this)"

definition webAclAssociations :: "Stack \<Rightarrow> CfnWebACLAssociation list" where
  "webAclAssociations this = map snd (childrenOf asWebACLAssociation this)"

text \<open>
  Modelled from the spec: the constructor of \<^verbatim>\<open>wafv2.CfnWebACLAssociation\<close> belongs to
  the library and is not among the sources. Following section 4.4, binding a firewall
  policy to an entry point that already has one is refused.
\<close>

definition new_CfnWebACLAssociation :: "string \<Rightarrow> CfnWebACLAssociation \<Rightarrow> Stack \<Rightarrow> error + Stack" where
  "new_CfnWebACLAssociation cid p this =
     (if resourceArn p \<in> set (map resourceArn (webAclAssociations this))
      then Inl (ValidationError cid ''entry point already has a firewall policy bound'')
      else Inr (addChild cid (WebACLAssociationNode p) this))"

definition new_SecurityGroup :: "string \<Rightarrow> string \<Rightarrow> string \<Rightarrow> bool \<Rightarrow> Stack \<Rightarrow> error + Stack" where
  "new_SecurityGroup cid v descr outbound this =
     Inr (addChild cid
       (SecurityGroupNode \<lparr> sgVpc = v, sgDescription = descr, allowAllOutbound = outbound,
                            ingressRules = [] \<rparr>) this)"

fun addIngressRuleNode :: "IngressRule \<Rightarrow> Construct \<Rightarrow> Construct option" where
  "addIngressRuleNode r (SecurityGroupNode g) =
     Some (SecurityGroupNode (g\<lparr> ingressRules := ingressRules g @ [r] \<rparr>))"
| "addIngressRuleNode r _ = None"

definition addIngressRule :: "string \<Rightarrow> Peer \<Rightarrow> Port \<Rightarrow> string \<Rightarrow> Stack \<Rightarrow> error + Stack" where
  "addIngressRule sg other p descr this =
     updateChild sg
       (addIngressRuleNode \<lparr> rulePeer = other, rulePort = p, ruleDescription = descr \<rparr>) this"

definition new_FargateTaskDefinition :: "string \<Rightarrow> nat \<Rightarrow> nat \<Rightarrow> Stack \<Rightarrow> error + Stack" where
  "new_FargateTaskDefinition cid c m this =
     Inr (addChild cid
       (TaskDefinitionNode \<lparr> tdCpu = c, tdMemoryLimitMiB = m, containers = [],
                             executionRole = None \<rparr>) this)"

fun addContainerNode :: "string \<Rightarrow> ContainerDefinitionOptions \<Rightarrow> Construct \<Rightarrow> Construct option" where
  "addContainerNode c opts (TaskDefinitionNode td) =
     Some (TaskDefinitionNode (td\<lparr> containers := containers td @ [(c, opts)] \<rparr>))"
| "addContainerNode c opts _ = None"

definition addContainer :: "string \<Rightarrow> string \<Rightarrow> ContainerDefinitionOptions \<Rightarrow> Stack \<Rightarrow> error + Stack" where
  "addContainer td c opts this = updateChild td (addContainerNode c opts) this"

definition new_FargateService :: "string \<Rightarrow> FargateServiceProps \<Rightarrow> Stack \<Rightarrow> error + Stack" where
  "new_FargateService cid p this = Inr (addChild cid (FargateServiceNode p) this)"

definition new_Topic :: "Attributes \<Rightarrow> string \<Rightarrow> string \<Rightarrow> Stack \<Rightarrow> error + Stack" where
  "new_Topic a cid dn this =
     Inr (addChild cid
       (TopicNode \<lparr> displayName = dn, subscriptions = [], topicAttrArn = topicArn a \<rparr>) this)"

fun addSubscriptionNode :: "Subscription \<Rightarrow> Construct \<Rightarrow> Construct option" where
  "addSubscriptionNode sub (TopicNode t) =
     Some (TopicNode (t\<lparr> subscriptions := subscriptions t @ [sub] \<rparr>))"
| "addSubscriptionNode sub _ = None"

definition addSubscription :: "string \<Rightarrow> Subscription \<Rightarrow> Stack \<Rightarrow> error + Stack" where
  "addSubscription t sub this = updateChild t (addSubscriptionNode sub) this"

text \<open>
  Modelled from the spec: the constructor of \<^verbatim>\<open>cloudwatch.Alarm\<close> belongs to the
  library and is not among the sources. Following section 4.5, an alarm that asks for
  more breaching datapoints than it has evaluation periods is refused at construction.
\<close>

definition CreateAlarm :: "AlarmProps \<Rightarrow> error + Alarm" where
  "CreateAlarm p =
     (if datapointsToAlarm p \<le> evaluationPeriods p
      then Inr \<lparr> alarmProps = p, alarmActions = [] \<rparr>
      else Inl (ValidationError (alarmName p) ''datapointsToAlarm > evaluationPeriods''))"

definition new_Alarm :: "string \<Rightarrow> AlarmProps \<Rightarrow> Stack \<Rightarrow> error + Stack" where
  "new_Alarm cid p this =
     (case CreateAlarm p of
        Inl e \<Rightarrow> Inl e
      | Inr al \<Rightarrow> Inr (addChild cid (AlarmNode al) this))"

fun addAlarmActionNode :: "string \<Rightarrow> Construct \<Rightarrow> Construct option" where
  "addAlarmActionNode arn (AlarmNode al) =
     Some (AlarmNode (al\<lparr> alarmActions := alarmActions al @ [arn] \<rparr>))"
| "addAlarmActionNode arn _ = None"

definition addAlarmAction :: "string \<Rightarrow> string \<Rightarrow> Stack \<Rightarrow> error + Stack" where
  "addAlarmAction al arn this = updateChild al (addAlarmActionNode arn) this"


section \<open>The stack\<close>

text \<open>
  The statements of a constructor run in order; the first one that throws ends the
  construction, and no stack is returned.
\<close>

fun construct :: "(Stack \<Rightarrow> error + Stack) list \<Rightarrow> Stack \<Rightarrow> error + Stack" where
  "construct [] this = Inr this"
| "construct (stmt # stmts) this =
     (case stmt this of
        Inl e \<Rightarrow> Inl e
      | Inr this' \<Rightarrow> construct stmts this')"

definition AwsInfraStack_body :: "Attributes \<Rightarrow> (Stack \<Rightarrow> error + Stack) list" where
  "AwsInfraStack_body a =
   [ new_Vpc ''AppVpc''
       \<lparr> maxAzs = 2, natGateways = 1,
         subnetConfiguration =
           [ \<lparr> name = ''Public'', subnetType = PUBLIC, cidrMask = 24 \<rparr>,
             \<lparr> name = ''Private'', subnetType = PRIVATE_WITH_EGRESS, cidrMask = 24 \<rparr> ] \<rparr>,
     new_Secret ''DbCredentialsSecret''
       \<lparr> secretStringTemplate = JSON_stringify [(''username'', ''postgres'')],
         generateStringKey = ''password'',
         excludePunctuation = True \<rparr>,
     new_DatabaseInstance ''PostgresInstance''
       \<lparr> engine = postgres VER_15_12,
         instanceType = InstanceType_of T3 MICRO,
         dbVpc = ''AppVpc'',
         dbVpcSubnets = PRIVATE_WITH_EGRESS,
         credentials = fromSecret ''DbCredentialsSecret'',
         allocatedStorage = 20,
         maxAllocatedStorage = 100,
         databaseName = ''appdb'',
         multiAz = False,
         publiclyAccessible = False,
         dbRemovalPolicy = DESTROY,
         deleteAutomatedBackups = True,
         backupRetention = days 0 \<rparr>,
     new_Cluster ''AppCluster'' \<lparr> clusterVpc = ''AppVpc'' \<rparr>,
     new_LogGroup ''BackendLogGroup''
       \<lparr> logGroupName = ''/ecs/backend'', retention = ONE_WEEK, lgRemovalPolicy = DESTROY \<rparr>,
     new_LogGroup ''FrontendLogGroup''
       \<lparr> logGroupName = ''/ecs/frontend'', retention = ONE_WEEK, lgRemovalPolicy = DESTROY \<rparr>,
     new_ApplicationLoadBalancedFargateService a ''BackendService''
       \<lparr> cluster = ''AppCluster'',
         desiredCount = 1,
         cpu = 256,
         memoryLimitMiB = 512,
         publicLoadBalancer = True,
         taskImageOptions =
           \<lparr> image = fromRegistry ''904907794166.dkr.ecr.eu-north-1.amazonaws.com/backend'',
             containerPort = 3000,
             environment =
               [ (''DB_NAME'', ''appdb''),
                 (''DB_HOST'', dbInstanceEndpointAddress a),
                 (''DB_PORT'', dbInstanceEndpointPort a) ],
             secrets =
               [ (''DB_USER'', fromSecretsManager ''DbCredentialsSecret'' ''username''),
                 (''DB_PASSWORD'', fromSecretsManager ''DbCredentialsSecret'' ''password'') ],
             logDriver = awsLogs \<lparr> streamPrefix = ''backend'', logGroup = ''BackendLogGroup'' \<rparr> \<rparr> \<rparr>,
     GrantImagePull ''BackendService'',
     connections_allowFrom ''PostgresInstance'' (ofService ''BackendService'') (tcp 5432)
       ''Allow backend ECS tasks to connect to PostgresSQL'',
     new_CfnWebACL ''BackendWafAcl''
       \<lparr> defaultAction = WafAllow,
         aclScope = ''REGIONAL'',
         visibilityConfig =
           \<lparr> cloudWatchMetricsEnabled = True, metricName = ''BackendWafMetrics'',
             sampledRequestsEnabled = True \<rparr>,
         rules =
           [ \<lparr> ruleName = ''AWS-AWSManagedRulesCommonRuleSet'',
               priority = 0,
               overrideAction = OverrideNone,
               managedRuleGroupStatement =
                 \<lparr> vendorName = ''AWS'', groupName = ''AWSManagedRulesCommonRuleSet'' \<rparr>,
               ruleVisibilityConfig =
                 \<lparr> cloudWatchMetricsEnabled = True, metricName = ''CommonRuleSet'',
                   sampledRequestsEnabled = True \<rparr> \<rparr> ],
         webAclAttrArn = attrArn a \<rparr>,
     new_CfnWebACLAssociation ''WafAssociation''
       \<lparr> resourceArn = loadBalancerArn a, webAclArn = attrArn a \<rparr>,
     new_SecurityGroup ''FrontendSecurityGroup'' ''AppVpc''
       ''Allow HTTP access to frontend container'' True,
     addIngressRule ''FrontendSecurityGroup'' anyIpv4 (tcp 80) ''Allow HTTP from public'',
     new_FargateTaskDefinition ''FrontendTaskDef'' 256 512,
     addContainer ''FrontendTaskDef'' ''FrontendContainer''
       \<lparr> containerImage = fromRegistry ''904907794166.dkr.ecr.eu-north-1.amazonaws.com/frontend'',
         logging = awsLogs \<lparr> streamPrefix = ''frontend'', logGroup = ''FrontendLogGroup'' \<rparr> \<rparr>,
     new_FargateService ''FrontendService''
       \<lparr> fsCluster = ''AppCluster'',
         fsTaskDefinition = ''FrontendTaskDef'',
         fsDesiredCount = 1,
         assignPublicIp = True,
         fsVpcSubnets = PUBLIC,
         securityGroups = [''FrontendSecurityGroup''] \<rparr>,
     GrantImagePull ''FrontendTaskDef'',
     new_Topic a ''AlarmTopic'' ''Infra Alarms Topic'',
     addSubscription ''AlarmTopic'' (EmailSubscription ''serhii.slavita@icloud.com''),
     new_Alarm ''BackendHighCpu''
       \<lparr> metric = metricCpuUtilization ''BackendService'' (minutes 1),
         threshold = 70,
         evaluationPeriods = 2,
         datapointsToAlarm = 2,
         alarmDescription = ''CPU usage > 70% on backend'',
         comparisonOperator = GREATER_THAN_THRESHOLD,
         alarmName = ''BackendHighCpu'' \<rparr>,
     addAlarmAction ''BackendHighCpu'' (topicArn a),
     new_Alarm ''RdsHighCpu''
       \<lparr> metric = metricCPUUtilization ''PostgresInstance'' (minutes 1),
         threshold = 70,
         evaluationPeriods = 2,
         datapointsToAlarm = 2,
         alarmDescription = ''CPU usage > 70% on RDS'',
         comparisonOperator = GREATER_THAN_THRESHOLD,
         alarmName = ''RdsHighCpu'' \<rparr>,
     addAlarmAction ''RdsHighCpu'' (topicArn a) ]"

definition AwsInfraStack :: "Attributes \<Rightarrow> StackProps option \<Rightarrow> error + Stack" where
  "AwsInfraStack a props = construct (AwsInfraStack_body a) (new_Stack props)"


text \<open>
  The program \<^verbatim>\<open>bin/aws-infra.ts\<close>: the account and the region come from the process
  environment, and an unset or empty region is replaced by \<^verbatim>\<open>eu-central-1\<close>.
\<close>

definition aws_infra :: "(string \<Rightarrow> string option) \<Rightarrow> Attributes \<Rightarrow> error + Stack" where
  "aws_infra processEnv a =
     AwsInfraStack a
       (Some \<lparr> env =
          \<lparr> account = processEnv ''CDK_DEFAULT_ACCOUNT'',
            region =
              Some (case processEnv ''CDK_DEFAULT_REGION'' of
                      None \<Rightarrow> ''eu-central-1''
                    | Some r \<Rightarrow> if r = [] then ''eu-central-1'' else r) \<rparr> \<rparr>)"

definition and_then :: "error + 'a \<Rightarrow> ('a \<Rightarrow> error + 'b) \<Rightarrow> error + 'b" where
  "and_then r f = (case r of Inl e \<Rightarrow> Inl e | Inr x \<Rightarrow> f x)"

section \<open>Views of the graph\<close>

fun ingressOf :: "Construct \<Rightarrow> IngressRule list" where
  "ingressOf (DatabaseNode d) = connections d"
| "ingressOf (SecurityGroupNode g) = ingressRules g"
| "ingressOf _ = []"

text \<open>The ingress rules whose target is the construct with the given id.\<close>

definition ingressRulesTargeting :: "Stack \<Rightarrow> string \<Rightarrow> IngressRule list" where
  "ingressRulesTargeting this cid =
     concat (map (\<lambda>(i, n). if i = cid then ingressOf n else []) (nodes this))"

fun isAddressRange :: "Peer \<Rightarrow> bool" where
  "isAddressRange anyIpv4 = True"
| "isAddressRange (ipv4 c) = True"
| "isAddressRange (ofService w) = False"

text \<open>The address range a peer stands for; \<^verbatim>\<open>Peer.anyIpv4()\<close> is every IPv4 address.\<close>

fun cidrOf :: "Peer \<Rightarrow> string option" where
  "cidrOf anyIpv4 = Some ''0.0.0.0/0''"
| "cidrOf (ipv4 c) = Some c"
| "cidrOf (ofService w) = None"

definition dataStoreIsPrivate :: "Stack \<Rightarrow> DatabaseInstance \<Rightarrow> bool" where
  "dataStoreIsPrivate this d \<longleftrightarrow>
     \<not> publiclyAccessible (dbProps d) \<and>
     placement this (dbVpc (dbProps d)) (dbVpcSubnets (dbProps d)) \<noteq> [] \<and>
     list_all isPrivate (placement this (dbVpc (dbProps d)) (dbVpcSubnets (dbProps d)))"

text \<open>The public entry points of the graph: the load balancers of its load-balanced services.\<close>

definition entryPoints :: "Stack \<Rightarrow> (string \<times> ApplicationLoadBalancer) list" where
  "entryPoints this = map (\<lambda>(i, s). (i, loadBalancer s)) (childrenOf asLoadBalancedService this)"

definition policiesBoundTo :: "Stack \<Rightarrow> ApplicationLoadBalancer \<Rightarrow> CfnWebACLAssociation list" where
  "policiesBoundTo this lb = filter (\<lambda>x. resourceArn x = albArn lb) (webAclAssociations this)"

text \<open>The managed policies granted to the execution role of a workload.\<close>

fun grantsOfNode :: "Construct \<Rightarrow> ManagedPolicy list" where
  "grantsOfNode (LoadBalancedServiceNode s) =
     (case executionRole (taskDefinition s) of None \<Rightarrow> [] | Some r \<Rightarrow> managedPolicies r)"
| "grantsOfNode (TaskDefinitionNode td) =
     (case executionRole td of None \<Rightarrow> [] | Some r \<Rightarrow> managedPolicies r)"
| "grantsOfNode _ = []"

definition grantsOf :: "Stack \<Rightarrow> string \<Rightarrow> ManagedPolicy list" where
  "grantsOf this w = (case map_of (nodes this) w of None \<Rightarrow> [] | Some n \<Rightarrow> grantsOfNode n)"

text \<open>
  What the containers of the graph receive: plain environment values, and references to
  fields of a secret. Only the load-balanced service passes any; the frontend's container
  is added without environment and without secrets.
\<close>

definition plainBindings :: "Stack \<Rightarrow> (string \<times> string \<times> string) list" where
  "plainBindings this =
     concat (map (\<lambda>(i, s). map (Pair i) (environment (taskImageOptions (albProps s))))
                 (childrenOf asLoadBalancedService this))"

definition secretBindings :: "Stack \<Rightarrow> (string \<times> string \<times> EcsSecret) list" where
  "secretBindings this =
     concat (map (\<lambda>(i, s). map (Pair i) (secrets (taskImageOptions (albProps s))))
                 (childrenOf asLoadBalancedService this))"

section \<open>The backend's read endpoint\<close>

text \<open>
  The handler of \<^verbatim>\<open>/api/hello\<close> awaits one query. The promise of the database client
  either resolves to the rows or rejects with an error object that has a message.
\<close>

record JsError =
  message :: string

datatype QueryResult = resolves "(string \<times> string) list list" | rejects JsError

record Response =
  status :: nat
  body :: "(string \<times> string) list"

text \<open>
  The body of the \<^verbatim>\<open>try\<close> block: the value thrown, or the response sent. Reading
  \<^verbatim>\<open>rows[0].now\<close> when there is no first row throws a type error; a column that is
  missing from the row is left out of the JSON body.
\<close>

definition hello_try :: "QueryResult \<Rightarrow> JsError + Response" where
  "hello_try q =
     (case q of
        rejects err \<Rightarrow> Inl err
      | resolves rows \<Rightarrow>
          (case rows of
             [] \<Rightarrow> Inl \<lparr> message = ''Cannot read properties of undefined'' \<rparr>
           | row # _ \<Rightarrow>
               Inr \<lparr> status = 200,
                     body = (''message'', ''Hello from backend (Node.js)'')
                            # (case map_of row ''now'' of None \<Rightarrow> [] | Some t \<Rightarrow> [(''time'', t)]) \<rparr>))"

definition api_hello :: "QueryResult \<Rightarrow> Response" where
  "api_hello q =
     (case hello_try q of
        Inr r \<Rightarrow> r
      | Inl err \<Rightarrow>
          \<lparr> status = 500,
            body = [(''error'', ''Database error''), (''detail'', message err)] \<rparr>)"

section \<open>The graph the stack builds\<close>

lemmas construct_defs =
  AwsInfraStack_def AwsInfraStack_body_def new_Stack_def addChild_def updateChild_def
  new_Vpc_def BuildNetwork_def new_Secret_def new_DatabaseInstance_def new_Cluster_def
  new_LogGroup_def new_ApplicationLoadBalancedFargateService_def GrantImagePull_def
  connections_allowFrom_def new_CfnWebACL_def new_CfnWebACLAssociation_def
  webAclAssociations_def childrenOf_def new_SecurityGroup_def addIngressRule_def
  new_FargateTaskDefinition_def addContainer_def new_FargateService_def new_Topic_def
  addSubscription_def new_Alarm_def CreateAlarm_def addAlarmAction_def
  obtainExecutionRole_addManagedPolicy_def obtainExecutionRole_def addManagedPolicy_def
  List.map_filter_def alignUp_def blockSize_def Let_def upt_conv_Cons

lemma AwsInfraStack_emits:
  "AwsInfraStack a props =
   Inr \<lparr> stackProps = props, nodes =
    [(''AppVpc'',
      VpcNode
       \<lparr>vpcProps =
          \<lparr>maxAzs = 2, natGateways = 1,
             subnetConfiguration =
               [\<lparr>name = ''Public'', subnetType = PUBLIC, cidrMask = 24\<rparr>,
                \<lparr>name = ''Private'', subnetType = PRIVATE_WITH_EGRESS,
                   cidrMask = 24\<rparr>]\<rparr>,
          subnets =
            [\<lparr>subnetGroupName = ''Public'', subnetKind = PUBLIC,
                availabilityZone = 0, cidrBase = 0, cidrPrefix = 24\<rparr>,
             \<lparr>subnetGroupName = ''Public'', subnetKind = PUBLIC,
                availabilityZone = Suc 0, cidrBase = 256, cidrPrefix = 24\<rparr>,
             \<lparr>subnetGroupName = ''Private'',
                subnetKind = PRIVATE_WITH_EGRESS, availabilityZone = 0,
                cidrBase = 512, cidrPrefix = 24\<rparr>,
             \<lparr>subnetGroupName = ''Private'',
                subnetKind = PRIVATE_WITH_EGRESS, availabilityZone = Suc 0,
                cidrBase = 768, cidrPrefix = 24\<rparr>],
          natGatewayCount = Suc 0\<rparr>),
     (''DbCredentialsSecret'',
      SecretNode
       \<lparr>generateSecretString =
          \<lparr>secretStringTemplate =
             JSON_stringify [(''username'', ''postgres'')],
             generateStringKey = ''password'', excludePunctuation = True\<rparr>\<rparr>),
     (''PostgresInstance'',
      DatabaseNode
       \<lparr>dbProps =
          \<lparr>engine = postgres VER_15_12,
             instanceType = InstanceType_of T3 MICRO, dbVpc = ''AppVpc'',
             dbVpcSubnets = PRIVATE_WITH_EGRESS,
             credentials = fromSecret ''DbCredentialsSecret'',
             allocatedStorage = 20, maxAllocatedStorage = 100,
             databaseName = ''appdb'', multiAz = False,
             publiclyAccessible = False, dbRemovalPolicy = DESTROY,
             deleteAutomatedBackups = True, backupRetention = days 0\<rparr>,
          connections =
            [\<lparr>rulePeer = ofService ''BackendService'', rulePort = tcp 5432,
                ruleDescription =
                  ''Allow backend ECS tasks to connect to PostgresSQL''\<rparr>]\<rparr>),
     (''AppCluster'', ClusterNode \<lparr>clusterVpc = ''AppVpc''\<rparr>),
     (''BackendLogGroup'',
      LogGroupNode
       \<lparr>logGroupName = ''/ecs/backend'', retention = ONE_WEEK,
          lgRemovalPolicy = DESTROY\<rparr>),
     (''FrontendLogGroup'',
      LogGroupNode
       \<lparr>logGroupName = ''/ecs/frontend'', retention = ONE_WEEK,
          lgRemovalPolicy = DESTROY\<rparr>),
     (''BackendService'',
      LoadBalancedServiceNode
       \<lparr>albProps =
          \<lparr>cluster = ''AppCluster'', desiredCount = Suc 0, cpu = 256,
             memoryLimitMiB = 512, publicLoadBalancer = True,
             taskImageOptions =
               \<lparr>TaskImageOptions.image =
                  fromRegistry
                   ''904907794166.dkr.ecr.eu-north-1.amazonaws.com/backend'',
                  containerPort = 3000,
                  environment =
                    [(''DB_NAME'', ''appdb''),
                     (''DB_HOST'', dbInstanceEndpointAddress a),
                     (''DB_PORT'', dbInstanceEndpointPort a)],
                  secrets =
                    [(''DB_USER'',
                      fromSecretsManager ''DbCredentialsSecret''
                       ''username''),
                     (''DB_PASSWORD'',
                      fromSecretsManager ''DbCredentialsSecret''
                       ''password'')],
                  logDriver =
                    awsLogs
                     \<lparr>streamPrefix = ''backend'',
                        logGroup = ''BackendLogGroup''\<rparr>\<rparr>\<rparr>,
          taskDefinition =
            \<lparr>tdCpu = 256, tdMemoryLimitMiB = 512,
               containers =
                 [(''web'',
                   \<lparr>containerImage =
                      fromRegistry
                       ''904907794166.dkr.ecr.eu-north-1.amazonaws.com/backend'',
                      logging =
                        awsLogs
                         \<lparr>streamPrefix = ''backend'',
                            logGroup = ''BackendLogGroup''\<rparr>\<rparr>)],
               executionRole =
                 Some
                  \<lparr>managedPolicies =
                     [fromAwsManagedPolicyName
                       ''AmazonEC2ContainerRegistryReadOnly'']\<rparr>\<rparr>,
          loadBalancer =
            \<lparr>albArn = loadBalancerArn a, internetFacing = True\<rparr>\<rparr>),
     (''BackendWafAcl'',
      WebACLNode
       \<lparr>defaultAction = WafAllow, aclScope = ''REGIONAL'',
          visibilityConfig =
            \<lparr>cloudWatchMetricsEnabled = True,
               metricName = ''BackendWafMetrics'',
               sampledRequestsEnabled = True\<rparr>,
          rules =
            [\<lparr>ruleName = ''AWS-AWSManagedRulesCommonRuleSet'', priority = 0,
                overrideAction = OverrideNone,
                managedRuleGroupStatement =
                  \<lparr>vendorName = ''AWS'',
                     groupName = ''AWSManagedRulesCommonRuleSet''\<rparr>,
                ruleVisibilityConfig =
                  \<lparr>cloudWatchMetricsEnabled = True,
                     metricName = ''CommonRuleSet'',
                     sampledRequestsEnabled = True\<rparr>\<rparr>],
          webAclAttrArn = attrArn a\<rparr>),
     (''WafAssociation'',
      WebACLAssociationNode
       \<lparr>resourceArn = loadBalancerArn a, webAclArn = attrArn a\<rparr>),
     (''FrontendSecurityGroup'',
      SecurityGroupNode
       \<lparr>sgVpc = ''AppVpc'',
          sgDescription = ''Allow HTTP access to frontend container'',
          allowAllOutbound = True,
          ingressRules =
            [\<lparr>rulePeer = anyIpv4, rulePort = tcp 80,
                ruleDescription = ''Allow HTTP from public''\<rparr>]\<rparr>),
     (''FrontendTaskDef'',
      TaskDefinitionNode
       \<lparr>tdCpu = 256, tdMemoryLimitMiB = 512,
          containers =
            [(''FrontendContainer'',
              \<lparr>containerImage =
                 fromRegistry
                  ''904907794166.dkr.ecr.eu-north-1.amazonaws.com/frontend'',
                 logging =
                   awsLogs
                    \<lparr>streamPrefix = ''frontend'',
                       logGroup = ''FrontendLogGroup''\<rparr>\<rparr>)],
          executionRole =
            Some
             \<lparr>managedPolicies =
                [fromAwsManagedPolicyName
                  ''AmazonEC2ContainerRegistryReadOnly'']\<rparr>\<rparr>),
     (''FrontendService'',
      FargateServiceNode
       \<lparr>fsCluster = ''AppCluster'', fsTaskDefinition = ''FrontendTaskDef'',
          fsDesiredCount = Suc 0, assignPublicIp = True,
          fsVpcSubnets = PUBLIC,
          securityGroups = [''FrontendSecurityGroup'']\<rparr>),
     (''AlarmTopic'',
      TopicNode
       \<lparr>displayName = ''Infra Alarms Topic'',
          subscriptions = [EmailSubscription ''serhii.slavita@icloud.com''],
          topicAttrArn = topicArn a\<rparr>),
     (''BackendHighCpu'',
      AlarmNode
       \<lparr>alarmProps =
          \<lparr>metric =
             metricCpuUtilization ''BackendService'' (minutes (Suc 0)),
             threshold = 70, evaluationPeriods = 2, datapointsToAlarm = 2,
             alarmDescription = ''CPU usage > 70% on backend'',
             comparisonOperator = GREATER_THAN_THRESHOLD,
             alarmName = ''BackendHighCpu''\<rparr>,
          alarmActions = [topicArn a]\<rparr>),
     (''RdsHighCpu'',
      AlarmNode
       \<lparr>alarmProps =
          \<lparr>metric =
             metricCPUUtilization ''PostgresInstance'' (minutes (Suc 0)),
             threshold = 70, evaluationPeriods = 2, datapointsToAlarm = 2,
             alarmDescription = ''CPU usage > 70% on RDS'',
             comparisonOperator = GREATER_THAN_THRESHOLD,
             alarmName = ''RdsHighCpu''\<rparr>,
          alarmActions = [topicArn a]\<rparr>)] \<rparr>"
  by (simp add: construct_defs)


section \<open>Address blocks of the network\<close>

lemma blockSize_pos: "0 < blockSize n"
  by (simp add: blockSize_def)

lemma alignUp_ge: "0 < sz \<Longrightarrow> a \<le> alignUp a sz"
proof -
  assume pos: "0 < sz"
  have "(a + sz - 1) div sz * sz = (a + sz - 1) - (a + sz - 1) mod sz"
    by (simp add: minus_mod_eq_div_mult)
  moreover have "(a + sz - 1) mod sz < sz" using pos by simp
  ultimately show ?thesis unfolding alignUp_def using pos by linarith
qed

lemma allocate_base_ge: "s \<in> set (allocate next reqs) \<Longrightarrow> next \<le> cidrBase s"
proof (induction reqs arbitrary: "next")
  case Nil
  then show ?case by simp
next
  case (Cons r reqs)
  obtain c az where r: "r = (c, az)" by (cases r)
  let ?base = "alignUp next (blockSize (cidrMask c))"
  have ge: "next \<le> ?base" by (rule alignUp_ge [OF blockSize_pos])
  from Cons.prems r
  consider "cidrBase s = ?base" | "s \<in> set (allocate (?base + blockSize (cidrMask c)) reqs)"
    by (auto simp: Let_def)
  then show ?case
  proof cases
    case 1
    then show ?thesis using ge by simp
  next
    case 2
    from Cons.IH [OF 2] ge show ?thesis by linarith
  qed
qed

lemma allocate_nonOverlapping: "nonOverlapping (allocate next reqs)"
proof (induction reqs arbitrary: "next")
  case Nil
  then show ?case by simp
next
  case (Cons r reqs)
  obtain c az where r: "r = (c, az)" by (cases r)
  let ?base = "alignUp next (blockSize (cidrMask c))"
  let ?rest = "allocate (?base + blockSize (cidrMask c)) reqs"
  have "\<forall>t \<in> set ?rest. ?base + blockSize (cidrMask c) \<le> cidrBase t"
    using allocate_base_ge by blast
  then have "list_all (\<lambda>t. \<not> overlapping
      \<lparr> subnetGroupName = name c, subnetKind = subnetType c, availabilityZone = az,
        cidrBase = ?base, cidrPrefix = cidrMask c \<rparr> t) ?rest"
    by (auto simp: list_all_iff overlapping_def blockEnd_def)
  with Cons.IH [of "?base + blockSize (cidrMask c)"] r show ?case
    by (simp add: Let_def)
qed

lemma allocate_kinds: "map subnetKind (allocate next reqs) = map (\<lambda>(c, az). subnetType c) reqs"
  by (induction reqs arbitrary: "next") (auto simp: Let_def)

lemma allocate_prefixes: "map cidrPrefix (allocate next reqs) = map (\<lambda>(c, az). cidrMask c) reqs"
  by (induction reqs arbitrary: "next") (auto simp: Let_def)

lemma length_filter_map: "length (filter P (map f xs)) = length (filter (P \<circ> f) xs)"
  by (induction xs) auto

lemma count_kind:
  "length (filter (\<lambda>s. P (subnetKind s)) (allocate next reqs)) =
   length (filter (\<lambda>(c, az). P (subnetType c)) reqs)"
proof -
  have "length (filter (\<lambda>s. P (subnetKind s)) (allocate next reqs)) =
        length (filter P (map subnetKind (allocate next reqs)))"
    by (simp add: length_filter_map comp_def)
  also have "\<dots> = length (filter P (map (\<lambda>(c, az). subnetType c) reqs))"
    by (simp add: allocate_kinds)
  also have "\<dots> = length (filter (\<lambda>(c, az). P (subnetType c)) reqs)"
    by (simp add: length_filter_map comp_def case_prod_unfold)
  finally show ?thesis .
qed

lemma network_general:
  assumes b: "BuildNetwork p = Inr v"
    and c: "subnetConfiguration p =
      [ \<lparr> name = ''Public'', subnetType = PUBLIC, cidrMask = 24 \<rparr>,
        \<lparr> name = ''Private'', subnetType = PRIVATE_WITH_EGRESS, cidrMask = 24 \<rparr> ]"
  shows "int (length (filter isPublic (subnets v))) = maxAzs p"
    and "int (length (filter isPrivate (subnets v))) = maxAzs p"
    and "list_all (\<lambda>s. cidrPrefix s = 24) (subnets v)"
    and "nonOverlapping (subnets v)"
proof -
  from b have pos: "1 \<le> maxAzs p"
    and sub: "subnets v = allocate 0 (List.product (subnetConfiguration p) [0 ..< nat (maxAzs p)])"
    by (auto simp: BuildNetwork_def split: if_splits)
  show "int (length (filter isPublic (subnets v))) = maxAzs p"
    unfolding sub c isPublic_def using pos
    by (simp add: count_kind [where P = "\<lambda>k. k = PUBLIC"] filter_map comp_def)
  show "int (length (filter isPrivate (subnets v))) = maxAzs p"
    unfolding sub c isPrivate_def using pos
    by (simp add: count_kind [where P = "\<lambda>k. k = PRIVATE_WITH_EGRESS \<or> k = PRIVATE_ISOLATED"] filter_map comp_def)
  have "set (map cidrPrefix (subnets v)) \<subseteq> {24}"
    unfolding sub c allocate_prefixes by auto
  then show "list_all (\<lambda>s. cidrPrefix s = 24) (subnets v)"
    by (auto simp: list_all_iff)
  show "nonOverlapping (subnets v)"
    unfolding sub by (rule allocate_nonOverlapping)
qed

lemmas view_defs = childrenOf_def List.map_filter_def placement_def selectSubnets_def
  isPublic_def isPrivate_def ingressRulesTargeting_def entryPoints_def policiesBoundTo_def
  webAclAssociations_def grantsOf_def dataStoreIsPrivate_def plainBindings_def
  secretBindings_def


section \<open>Statements in sequence, and methods called twice\<close>

lemma construct_append:
  "construct (xs @ ys) this = and_then (construct xs this) (construct ys)"
  by (induction xs arbitrary: this) (auto simp: and_then_def split: sum.splits)

lemma construct_throws:
  assumes "\<And>this. stmt this = Inl e"
  shows "\<exists>e'. construct (before @ stmt # rest) this = Inl e'"
  using assms by (cases "construct before this") (simp_all add: construct_append and_then_def)

lemma addManagedPolicy_idem: "addManagedPolicy p (addManagedPolicy p r) = addManagedPolicy p r"
  by (simp add: addManagedPolicy_def)

lemma grant_idem:
  "obtainExecutionRole_addManagedPolicy p (obtainExecutionRole_addManagedPolicy p td) =
   obtainExecutionRole_addManagedPolicy p td"
  by (cases "executionRole td")
     (simp_all add: obtainExecutionRole_addManagedPolicy_def obtainExecutionRole_def
        addManagedPolicy_idem Let_def)

lemma grantNode_idem: "grantNode p n = Some n' \<Longrightarrow> grantNode p n' = Some n'"
  by (cases n) (auto simp: grant_idem)

lemma map_of_replace:
  "map_of ns w = Some n \<Longrightarrow>
   map_of (map (\<lambda>(i, m). if i = w then (i, n') else (i, m)) ns) w = Some n'"
  by (induction ns) (auto split: if_splits)

lemma replace_twice:
  "map (\<lambda>(i, m). if i = w then (i, n') else (i, m))
     (map (\<lambda>(i, m). if i = w then (i, n') else (i, m)) ns) =
   map (\<lambda>(i, m). if i = w then (i, n') else (i, m)) ns"
  by (induction ns) auto

lemma updateChild_idem:
  assumes f: "\<And>n n'. f n = Some n' \<Longrightarrow> f n' = Some n'"
    and u: "updateChild w f this = Inr this'"
  shows "updateChild w f this' = Inr this'"
proof -
  from u obtain n n' where n: "map_of (nodes this) w = Some n" and n': "f n = Some n'"
    and this': "this' = this\<lparr> nodes := map (\<lambda>(i, m). if i = w then (i, n') else (i, m)) (nodes this) \<rparr>"
    by (auto simp: updateChild_def split: option.splits)
  have "map_of (nodes this') w = Some n'"
    unfolding this' using map_of_replace [OF n] by simp
  moreover have "f n' = Some n'" by (rule f [OF n'])
  ultimately show ?thesis
    unfolding this' by (simp add: updateChild_def replace_twice del: map_map)
qed

lemma webAclAssociations_addChild:
  "webAclAssociations (addChild cid (WebACLAssociationNode x) this) = webAclAssociations this @ [x]"
  by (simp add: webAclAssociations_def childrenOf_def List.map_filter_def addChild_def)

section \<open>Properties of the network\<close>

text \<open>
  Claim C1. A network built with the stack's two subnet groups (one public, one private
  with egress, both with prefix length 24) has as many public subnets as availability
  zones were requested, and as many private ones; every block has prefix length 24, and
  no two blocks overlap. The stack itself requests two zones, and its network has
  exactly two public and two private subnets.
\<close>

theorem network_subdivisions:
  "(BuildNetwork p = Inr v \<and>
    subnetConfiguration p =
      [ \<lparr> name = ''Public'', subnetType = PUBLIC, cidrMask = 24 \<rparr>,
        \<lparr> name = ''Private'', subnetType = PRIVATE_WITH_EGRESS, cidrMask = 24 \<rparr> ] \<longrightarrow>
    int (length (filter isPublic (subnets v))) = maxAzs p \<and>
    int (length (filter isPrivate (subnets v))) = maxAzs p \<and>
    list_all (\<lambda>s. cidrPrefix s = 24) (subnets v) \<and>
    nonOverlapping (subnets v))
   \<and>
   (\<exists>this w. AwsInfraStack a props = Inr this \<and>
      childrenOf asVpc this = [(''AppVpc'', w)] \<and>
      maxAzs (vpcProps w) = 2 \<and>
      length (filter isPublic (subnets w)) = 2 \<and>
      length (filter isPrivate (subnets w)) = 2 \<and>
      list_all (\<lambda>s. cidrPrefix s = 24) (subnets w) \<and>
      nonOverlapping (subnets w))"
proof (intro conjI impI)
  assume h: "BuildNetwork p = Inr v \<and>
    subnetConfiguration p =
      [ \<lparr> name = ''Public'', subnetType = PUBLIC, cidrMask = 24 \<rparr>,
        \<lparr> name = ''Private'', subnetType = PRIVATE_WITH_EGRESS, cidrMask = 24 \<rparr> ]"
  then show "int (length (filter isPublic (subnets v))) = maxAzs p"
    and "int (length (filter isPrivate (subnets v))) = maxAzs p"
    and "list_all (\<lambda>s. cidrPrefix s = 24) (subnets v)"
    and "nonOverlapping (subnets v)"
    using network_general by blast+
next
  show "\<exists>this w. AwsInfraStack a props = Inr this \<and>
      childrenOf asVpc this = [(''AppVpc'', w)] \<and>
      maxAzs (vpcProps w) = 2 \<and>
      length (filter isPublic (subnets w)) = 2 \<and>
      length (filter isPrivate (subnets w)) = 2 \<and>
      list_all (\<lambda>s. cidrPrefix s = 24) (subnets w) \<and>
      nonOverlapping (subnets w)"
    by (simp add: AwsInfraStack_emits view_defs overlapping_def blockEnd_def blockSize_def)
qed

theorem network_subdivisions_witness:
  "\<exists>v. BuildNetwork
          \<lparr> maxAzs = 3, natGateways = 1,
            subnetConfiguration =
              [ \<lparr> name = ''Public'', subnetType = PUBLIC, cidrMask = 24 \<rparr>,
                \<lparr> name = ''Private'', subnetType = PRIVATE_WITH_EGRESS, cidrMask = 24 \<rparr> ] \<rparr>
        = Inr v \<and>
        length (filter isPublic (subnets v)) = 3 \<and>
        length (filter isPrivate (subnets v)) = 3 \<and>
        list_all (\<lambda>s. cidrPrefix s = 24) (subnets v) \<and>
        nonOverlapping (subnets v)"
proof -
  let ?p = "\<lparr> maxAzs = 3, natGateways = 1,
            subnetConfiguration =
              [ \<lparr> name = ''Public'', subnetType = PUBLIC, cidrMask = 24 \<rparr>,
                \<lparr> name = ''Private'', subnetType = PRIVATE_WITH_EGRESS, cidrMask = 24 \<rparr> ] \<rparr>"
  obtain v where v: "BuildNetwork ?p = Inr v"
    by (simp add: BuildNetwork_def)
  from network_subdivisions [of ?p v, THEN conjunct1] v
  have "int (length (filter isPublic (subnets v))) = 3 \<and>
        int (length (filter isPrivate (subnets v))) = 3 \<and>
        list_all (\<lambda>s. cidrPrefix s = 24) (subnets v) \<and>
        nonOverlapping (subnets v)"
    by simp
  with v show ?thesis by auto
qed

text \<open>
  Claim C8. A network asked for fewer than one availability zone is refused, and the
  refusal ends the construction: whatever statements come before or after the network's
  constructor, the result is the error, and no stack, with or without a network node,
  is returned.
\<close>

theorem zero_zones_abort:
  "maxAzs p < 1 \<longrightarrow>
     BuildNetwork p = Inl (ValidationError ''Vpc'' ''availabilityZoneCount < 1'') \<and>
     new_Vpc cid p this = Inl (ValidationError ''Vpc'' ''availabilityZoneCount < 1'') \<and>
     construct (new_Vpc cid p # rest) this =
       Inl (ValidationError ''Vpc'' ''availabilityZoneCount < 1'') \<and>
     (\<exists>e. construct (before @ new_Vpc cid p # rest) this = Inl e)"
proof
  assume "maxAzs p < 1"
  then have b: "BuildNetwork p = Inl (ValidationError ''Vpc'' ''availabilityZoneCount < 1'')"
    by (simp add: BuildNetwork_def)
  then have v: "\<And>this. new_Vpc cid p this = Inl (ValidationError ''Vpc'' ''availabilityZoneCount < 1'')"
    by (simp add: new_Vpc_def)
  from v have "\<exists>e. construct (before @ new_Vpc cid p # rest) this = Inl e"
    by (rule construct_throws)
  with b v show "BuildNetwork p = Inl (ValidationError ''Vpc'' ''availabilityZoneCount < 1'') \<and>
     new_Vpc cid p this = Inl (ValidationError ''Vpc'' ''availabilityZoneCount < 1'') \<and>
     construct (new_Vpc cid p # rest) this =
       Inl (ValidationError ''Vpc'' ''availabilityZoneCount < 1'') \<and>
     (\<exists>e. construct (before @ new_Vpc cid p # rest) this = Inl e)"
    by simp
qed

theorem zero_zones_abort_witness:
  "maxAzs \<lparr> maxAzs = 0, natGateways = 1,
            subnetConfiguration =
              [ \<lparr> name = ''Public'', subnetType = PUBLIC, cidrMask = 24 \<rparr>,
                \<lparr> name = ''Private'', subnetType = PRIVATE_WITH_EGRESS, cidrMask = 24 \<rparr> ] \<rparr> < 1 \<and>
   construct
     (new_Vpc ''AppVpc''
        \<lparr> maxAzs = 0, natGateways = 1,
          subnetConfiguration =
            [ \<lparr> name = ''Public'', subnetType = PUBLIC, cidrMask = 24 \<rparr>,
              \<lparr> name = ''Private'', subnetType = PRIVATE_WITH_EGRESS, cidrMask = 24 \<rparr> ] \<rparr>
      # tl (AwsInfraStack_body
            \<lparr> dbInstanceEndpointAddress = ''db.internal'', dbInstanceEndpointPort = ''5432'',
             loadBalancerArn = ''arn:alb'', attrArn = ''arn:acl'', topicArn = ''arn:topic'' \<rparr>))
     (new_Stack None) =
   Inl (ValidationError ''Vpc'' ''availabilityZoneCount < 1'')"
  using zero_zones_abort
    [where p = "\<lparr> maxAzs = 0, natGateways = 1,
           subnetConfiguration =
             [ \<lparr> name = ''Public'', subnetType = PUBLIC, cidrMask = 24 \<rparr>,
               \<lparr> name = ''Private'', subnetType = PRIVATE_WITH_EGRESS, cidrMask = 24 \<rparr> ] \<rparr>"
       and cid = "''AppVpc''"
       and rest = "tl (AwsInfraStack_body
            \<lparr> dbInstanceEndpointAddress = ''db.internal'', dbInstanceEndpointPort = ''5432'',
             loadBalancerArn = ''arn:alb'', attrArn = ''arn:acl'', topicArn = ''arn:topic'' \<rparr>)"
       and this = "new_Stack None" and before = "[]"]
  by simp

section \<open>Properties of the database\<close>

text \<open>
  Claim C2. Whatever the library's attribute values and the stack's properties, the
  construction succeeds with exactly one database; it is not publicly accessible, and
  the subnets its placement selects exist and are all private.
\<close>

theorem data_store_private:
  "\<exists>this. AwsInfraStack a props = Inr this \<and>
     map fst (childrenOf asDatabase this) = [''PostgresInstance''] \<and>
     list_all (\<lambda>(i, d). dataStoreIsPrivate this d) (childrenOf asDatabase this)"
  by (simp add: AwsInfraStack_emits view_defs)

text \<open>
  Claim C3. The graph has exactly one ingress rule whose target is the database. Its
  source is the backend service, a workload and not an address range, and its port is
  TCP 5432; no rule with another source or port reaches the database.
\<close>

theorem data_store_ingress:
  "\<exists>this. AwsInfraStack a props = Inr this \<and>
     map fst (childrenOf asDatabase this) = [''PostgresInstance''] \<and>
     map fst (childrenOf asLoadBalancedService this) = [''BackendService''] \<and>
     ingressRulesTargeting this ''PostgresInstance'' =
       [ \<lparr> rulePeer = ofService ''BackendService'', rulePort = tcp 5432,
           ruleDescription = ''Allow backend ECS tasks to connect to PostgresSQL'' \<rparr> ] \<and>
     filter (\<lambda>r. isAddressRange (rulePeer r)) (ingressRulesTargeting this ''PostgresInstance'') = [] \<and>
     filter (\<lambda>r. \<not> (rulePeer r = ofService ''BackendService'' \<and> rulePort r = tcp 5432))
       (ingressRulesTargeting this ''PostgresInstance'') = []"
  by (simp add: AwsInfraStack_emits view_defs)

text \<open>
  Claim C4. The credential is a secret whose generated field is \<^verbatim>\<open>password\<close>; the graph
  holds only the template with the user name and the name of the generated field. The
  backend's container gets \<^verbatim>\<open>DB_USER\<close> and \<^verbatim>\<open>DB_PASSWORD\<close> as references to the
  fields of that secret, the database takes its credentials as a reference to the same
  secret, and the plain environment values are exactly \<^verbatim>\<open>DB_NAME\<close>, \<^verbatim>\<open>DB_HOST\<close> and
  \<^verbatim>\<open>DB_PORT\<close>: the database's name and the two endpoint strings.
\<close>

theorem secret_by_reference:
  "\<exists>this x d. AwsInfraStack a props = Inr this \<and>
     childrenOf asSecret this = [(''DbCredentialsSecret'', x)] \<and>
     generateStringKey (generateSecretString x) = ''password'' \<and>
     secretStringTemplate (generateSecretString x) = JSON_stringify [(''username'', ''postgres'')] \<and>
     childrenOf asDatabase this = [(''PostgresInstance'', d)] \<and>
     credentials (dbProps d) = fromSecret ''DbCredentialsSecret'' \<and>
     secretBindings this =
       [ (''BackendService'', ''DB_USER'', fromSecretsManager ''DbCredentialsSecret'' ''username''),
         (''BackendService'', ''DB_PASSWORD'', fromSecretsManager ''DbCredentialsSecret'' ''password'') ] \<and>
     plainBindings this =
       [ (''BackendService'', ''DB_NAME'', ''appdb''),
         (''BackendService'', ''DB_HOST'', dbInstanceEndpointAddress a),
         (''BackendService'', ''DB_PORT'', dbInstanceEndpointPort a) ]"
  by (simp add: AwsInfraStack_emits view_defs)

section \<open>Properties of the workloads\<close>

text \<open>
  Claim C5. The graph has exactly one load-balanced service and exactly one entry point,
  the load balancer created with that service; exactly one firewall policy is bound to
  it, and binding another to it is refused. In general, after a successful binding a
  second binding to the same entry point is refused, so that no entry point ever has two.
\<close>

theorem entry_point_and_firewall:
  "(\<exists>this s. AwsInfraStack a props = Inr this \<and>
      childrenOf asLoadBalancedService this = [(''BackendService'', s)] \<and>
      entryPoints this = [(''BackendService'', loadBalancer s)] \<and>
      length (policiesBoundTo this (loadBalancer s)) = 1 \<and>
      new_CfnWebACLAssociation cid \<lparr> resourceArn = albArn (loadBalancer s), webAclArn = acl \<rparr> this =
        Inl (ValidationError cid ''entry point already has a firewall policy bound''))
   \<and>
   (new_CfnWebACLAssociation c1 x this0 = Inr this1 \<and> resourceArn y = resourceArn x \<longrightarrow>
      new_CfnWebACLAssociation c2 y this1 =
        Inl (ValidationError c2 ''entry point already has a firewall policy bound''))
   \<and>
   (new_CfnWebACLAssociation c1 x this0 = Inr this1 \<and>
    distinct (map resourceArn (webAclAssociations this0)) \<longrightarrow>
      distinct (map resourceArn (webAclAssociations this1)))"
proof (intro conjI impI)
  obtain this where b: "AwsInfraStack a props = Inr this"
    by (simp add: AwsInfraStack_emits)
  obtain s where s: "childrenOf asLoadBalancedService this = [(''BackendService'', s)]"
    and lb: "albArn (loadBalancer s) = loadBalancerArn a"
    using b by (auto simp: AwsInfraStack_emits view_defs)
  have w: "webAclAssociations this = [\<lparr> resourceArn = loadBalancerArn a, webAclArn = attrArn a \<rparr>]"
    using b by (auto simp: AwsInfraStack_emits view_defs)
  have e: "entryPoints this = [(''BackendService'', loadBalancer s)]"
    using s by (simp add: entryPoints_def)
  have n: "length (policiesBoundTo this (loadBalancer s)) = 1"
    using w lb by (simp add: policiesBoundTo_def)
  have r: "new_CfnWebACLAssociation cid \<lparr> resourceArn = albArn (loadBalancer s), webAclArn = acl \<rparr> this =
        Inl (ValidationError cid ''entry point already has a firewall policy bound'')"
    using w lb by (simp add: new_CfnWebACLAssociation_def)
  from b s e n r
  show "\<exists>this s. AwsInfraStack a props = Inr this \<and>
      childrenOf asLoadBalancedService this = [(''BackendService'', s)] \<and>
      entryPoints this = [(''BackendService'', loadBalancer s)] \<and>
      length (policiesBoundTo this (loadBalancer s)) = 1 \<and>
      new_CfnWebACLAssociation cid \<lparr> resourceArn = albArn (loadBalancer s), webAclArn = acl \<rparr> this =
        Inl (ValidationError cid ''entry point already has a firewall policy bound'')"
    by blast
next
  assume "new_CfnWebACLAssociation c1 x this0 = Inr this1 \<and> resourceArn y = resourceArn x"
  then show "new_CfnWebACLAssociation c2 y this1 =
        Inl (ValidationError c2 ''entry point already has a firewall policy bound'')"
    by (auto simp: new_CfnWebACLAssociation_def webAclAssociations_addChild split: if_splits)
next
  assume "new_CfnWebACLAssociation c1 x this0 = Inr this1 \<and>
    distinct (map resourceArn (webAclAssociations this0))"
  then show "distinct (map resourceArn (webAclAssociations this1))"
    by (auto simp: new_CfnWebACLAssociation_def webAclAssociations_addChild split: if_splits)
qed

theorem entry_point_and_firewall_witness:
  "\<exists>this1.
     new_CfnWebACLAssociation ''WafAssociation''
       \<lparr> resourceArn = ''arn:alb'', webAclArn = ''arn:acl'' \<rparr> (new_Stack None) = Inr this1 \<and>
     distinct (map resourceArn (webAclAssociations (new_Stack None))) \<and>
     new_CfnWebACLAssociation ''SecondAssociation''
       \<lparr> resourceArn = ''arn:alb'', webAclArn = ''arn:other'' \<rparr> this1 =
       Inl (ValidationError ''SecondAssociation'' ''entry point already has a firewall policy bound'') \<and>
     distinct (map resourceArn (webAclAssociations this1))"
proof -
  let ?x = "\<lparr> resourceArn = ''arn:alb'', webAclArn = ''arn:acl'' \<rparr>"
  let ?y = "\<lparr> resourceArn = ''arn:alb'', webAclArn = ''arn:other'' \<rparr>"
  have d: "distinct (map resourceArn (webAclAssociations (new_Stack None)))"
    by (simp add: view_defs new_Stack_def)
  obtain this1 where
    one: "new_CfnWebACLAssociation ''WafAssociation'' ?x (new_Stack None) = Inr this1"
    by (simp add: new_CfnWebACLAssociation_def view_defs new_Stack_def)
  note again = entry_point_and_firewall
    [where ?c1.0 = "''WafAssociation''" and x = ?x and ?this0.0 = "new_Stack None"
       and ?this1.0 = this1 and y = ?y and ?c2.0 = "''SecondAssociation''"]
  from again one have two: "new_CfnWebACLAssociation ''SecondAssociation'' ?y this1 =
       Inl (ValidationError ''SecondAssociation'' ''entry point already has a firewall policy bound'')"
    by simp
  from again one d have "distinct (map resourceArn (webAclAssociations this1))"
    by simp
  with one two d show ?thesis by blast
qed

text \<open>
  Claim C7. Granting image pull to a workload twice gives the same result as granting
  it once, whether the grant succeeds or the handle names no workload. In the graph the
  stack builds, each of the two execution roles holds the registry policy once, and a
  further grant to either workload leaves the graph as it is.
\<close>

theorem grant_image_pull_idempotent:
  "and_then (GrantImagePull w this) (GrantImagePull w) = GrantImagePull w this \<and>
   (\<exists>built. AwsInfraStack a props = Inr built \<and>
      grantsOf built ''BackendService'' =
        [fromAwsManagedPolicyName ''AmazonEC2ContainerRegistryReadOnly''] \<and>
      grantsOf built ''FrontendTaskDef'' =
        [fromAwsManagedPolicyName ''AmazonEC2ContainerRegistryReadOnly''] \<and>
      GrantImagePull ''BackendService'' built = Inr built \<and>
      GrantImagePull ''FrontendTaskDef'' built = Inr built)"
proof (intro conjI)
  show "and_then (GrantImagePull w this) (GrantImagePull w) = GrantImagePull w this"
  proof (cases "GrantImagePull w this")
    case (Inl e)
    then show ?thesis by (simp add: and_then_def)
  next
    case (Inr this')
    then have "GrantImagePull w this' = Inr this'"
      unfolding GrantImagePull_def by (rule updateChild_idem [rotated]) (rule grantNode_idem)
    with Inr show ?thesis by (simp add: and_then_def)
  qed
next
  obtain built where b: "AwsInfraStack a props = Inr built"
    by (simp add: AwsInfraStack_emits)
  have g1: "grantsOf built ''BackendService'' =
        [fromAwsManagedPolicyName ''AmazonEC2ContainerRegistryReadOnly'']"
    and g2: "grantsOf built ''FrontendTaskDef'' =
        [fromAwsManagedPolicyName ''AmazonEC2ContainerRegistryReadOnly'']"
    using b by (auto simp: AwsInfraStack_emits grantsOf_def)
  have s1: "GrantImagePull ''BackendService'' built = Inr built"
    and s2: "GrantImagePull ''FrontendTaskDef'' built = Inr built"
    using b by (auto simp: AwsInfraStack_emits GrantImagePull_def updateChild_def
        obtainExecutionRole_addManagedPolicy_def obtainExecutionRole_def addManagedPolicy_def)
  from b g1 g2 s1 s2
  show "\<exists>built. AwsInfraStack a props = Inr built \<and>
      grantsOf built ''BackendService'' =
        [fromAwsManagedPolicyName ''AmazonEC2ContainerRegistryReadOnly''] \<and>
      grantsOf built ''FrontendTaskDef'' =
        [fromAwsManagedPolicyName ''AmazonEC2ContainerRegistryReadOnly''] \<and>
      GrantImagePull ''BackendService'' built = Inr built \<and>
      GrantImagePull ''FrontendTaskDef'' built = Inr built"
    by blast
qed

text \<open>
  Claim C9. The frontend service is assigned a public IP and selects the public subnets
  of the cluster's network, which exist and are all public. Its security group allows
  all outbound traffic and has one ingress rule, TCP port 80 from any IPv4 address. It
  has no entry point: the only one in the graph belongs to the backend service.
\<close>

theorem frontend_exposed:
  "\<exists>this f g c. AwsInfraStack a props = Inr this \<and>
     childrenOf asFargateService this = [(''FrontendService'', f)] \<and>
     assignPublicIp f \<and>
     fsVpcSubnets f = PUBLIC \<and>
     fsCluster f = ''AppCluster'' \<and>
     childrenOf asCluster this = [(''AppCluster'', c)] \<and>
     placement this (clusterVpc c) (fsVpcSubnets f) \<noteq> [] \<and>
     list_all isPublic (placement this (clusterVpc c) (fsVpcSubnets f)) \<and>
     securityGroups f = [''FrontendSecurityGroup''] \<and>
     childrenOf asSecurityGroup this = [(''FrontendSecurityGroup'', g)] \<and>
     allowAllOutbound g \<and>
     ingressRulesTargeting this ''FrontendSecurityGroup'' =
       [ \<lparr> rulePeer = anyIpv4, rulePort = tcp 80,
           ruleDescription = ''Allow HTTP from public'' \<rparr> ] \<and>
     cidrOf anyIpv4 = Some ''0.0.0.0/0'' \<and>
     map fst (entryPoints this) = [''BackendService'']"
  by (simp add: AwsInfraStack_emits view_defs)

section \<open>Properties of the alarms\<close>

text \<open>
  Claim C6. An alarm that asks for more datapoints than evaluation periods is refused
  when it is constructed, and the refusal ends the construction of the stack that holds
  the statement; otherwise the alarm is created. Three datapoints in two periods are
  refused. The stack's two alarms both ask for two datapoints in two periods, and the
  stack is built.
\<close>

theorem alarm_datapoints_validation:
  "(evaluationPeriods p < datapointsToAlarm p \<longrightarrow>
      CreateAlarm p = Inl (ValidationError (alarmName p) ''datapointsToAlarm > evaluationPeriods'') \<and>
      (\<exists>e. construct (before @ new_Alarm cid p # rest) this = Inl e))
   \<and>
   (datapointsToAlarm p \<le> evaluationPeriods p \<longrightarrow>
      CreateAlarm p = Inr \<lparr> alarmProps = p, alarmActions = [] \<rparr>)
   \<and>
   (\<exists>e. CreateAlarm (p\<lparr> evaluationPeriods := 2, datapointsToAlarm := 3 \<rparr>) = Inl e)
   \<and>
   (\<exists>built. AwsInfraStack a props = Inr built \<and>
      map (\<lambda>(i, al). (i, evaluationPeriods (alarmProps al), datapointsToAlarm (alarmProps al)))
          (childrenOf asAlarm built) =
        [(''BackendHighCpu'', 2, 2), (''RdsHighCpu'', 2, 2)])"
proof (intro conjI impI)
  assume bad: "evaluationPeriods p < datapointsToAlarm p"
  then show "CreateAlarm p = Inl (ValidationError (alarmName p) ''datapointsToAlarm > evaluationPeriods'')"
    by (simp add: CreateAlarm_def)
  then have "\<And>this. new_Alarm cid p this =
      Inl (ValidationError (alarmName p) ''datapointsToAlarm > evaluationPeriods'')"
    by (simp add: new_Alarm_def)
  then show "\<exists>e. construct (before @ new_Alarm cid p # rest) this = Inl e"
    by (rule construct_throws)
next
  assume "datapointsToAlarm p \<le> evaluationPeriods p"
  then show "CreateAlarm p = Inr \<lparr> alarmProps = p, alarmActions = [] \<rparr>"
    by (simp add: CreateAlarm_def)
next
  show "\<exists>e. CreateAlarm (p\<lparr> evaluationPeriods := 2, datapointsToAlarm := 3 \<rparr>) = Inl e"
    by (simp add: CreateAlarm_def)
next
  show "\<exists>built. AwsInfraStack a props = Inr built \<and>
      map (\<lambda>(i, al). (i, evaluationPeriods (alarmProps al), datapointsToAlarm (alarmProps al)))
          (childrenOf asAlarm built) =
        [(''BackendHighCpu'', 2, 2), (''RdsHighCpu'', 2, 2)]"
    by (simp add: AwsInfraStack_emits view_defs)
qed

theorem alarm_datapoints_validation_witness:
  "evaluationPeriods
     \<lparr> metric = metricCpuUtilization ''BackendService'' (minutes 1), threshold = 70,
       evaluationPeriods = 2, datapointsToAlarm = 3,
       alarmDescription = ''CPU usage > 70% on backend'',
       comparisonOperator = GREATER_THAN_THRESHOLD, alarmName = ''BackendHighCpu'' \<rparr>
   < datapointsToAlarm
     \<lparr> metric = metricCpuUtilization ''BackendService'' (minutes 1), threshold = 70,
       evaluationPeriods = 2, datapointsToAlarm = 3,
       alarmDescription = ''CPU usage > 70% on backend'',
       comparisonOperator = GREATER_THAN_THRESHOLD, alarmName = ''BackendHighCpu'' \<rparr> \<and>
   CreateAlarm
     \<lparr> metric = metricCpuUtilization ''BackendService'' (minutes 1), threshold = 70,
       evaluationPeriods = 2, datapointsToAlarm = 3,
       alarmDescription = ''CPU usage > 70% on backend'',
       comparisonOperator = GREATER_THAN_THRESHOLD, alarmName = ''BackendHighCpu'' \<rparr> =
     Inl (ValidationError ''BackendHighCpu'' ''datapointsToAlarm > evaluationPeriods'') \<and>
   CreateAlarm
     \<lparr> metric = metricCpuUtilization ''BackendService'' (minutes 1), threshold = 70,
       evaluationPeriods = 2, datapointsToAlarm = 2,
       alarmDescription = ''CPU usage > 70% on backend'',
       comparisonOperator = GREATER_THAN_THRESHOLD, alarmName = ''BackendHighCpu'' \<rparr> =
     Inr \<lparr> alarmProps =
             \<lparr> metric = metricCpuUtilization ''BackendService'' (minutes 1), threshold = 70,
               evaluationPeriods = 2, datapointsToAlarm = 2,
               alarmDescription = ''CPU usage > 70% on backend'',
               comparisonOperator = GREATER_THAN_THRESHOLD, alarmName = ''BackendHighCpu'' \<rparr>,
           alarmActions = [] \<rparr>"
  using alarm_datapoints_validation
    [where p = "\<lparr> metric = metricCpuUtilization ''BackendService'' (minutes 1), threshold = 70,
           evaluationPeriods = 2, datapointsToAlarm = 3,
           alarmDescription = ''CPU usage > 70% on backend'',
           comparisonOperator = GREATER_THAN_THRESHOLD, alarmName = ''BackendHighCpu'' \<rparr>"]
    alarm_datapoints_validation
    [where p = "\<lparr> metric = metricCpuUtilization ''BackendService'' (minutes 1), threshold = 70,
           evaluationPeriods = 2, datapointsToAlarm = 2,
           alarmDescription = ''CPU usage > 70% on backend'',
           comparisonOperator = GREATER_THAN_THRESHOLD, alarmName = ''BackendHighCpu'' \<rparr>"]
  by simp

section \<open>Properties of the backend's handler\<close>

text \<open>
  Claim C10. When the query of \<^verbatim>\<open>/api/hello\<close> is rejected with an error, the handler
  answers with status 500 and a JSON body with the field \<^verbatim>\<open>error\<close> and the field
  \<^verbatim>\<open>detail\<close>, which holds the error's message.
\<close>

theorem hello_query_error:
  "api_hello (rejects err) =
     \<lparr> status = 500, body = [(''error'', ''Database error''), (''detail'', message err)] \<rparr>"
  by (simp add: api_hello_def hello_try_def)


end
